theory Spec2Isabelle
  imports Main
begin

section \<open>Text, bytes and the codec of standard output\<close>

text \<open>
  Strings are byte strings. An environment value is the bytes the operating system
  holds for it, and a Python \<^verbatim>\<open>str\<close> is written as its UTF-8 bytes:
  \<^verbatim>\<open>os.environ\<close> decodes the environment as UTF-8 with the error handler
  \<^verbatim>\<open>surrogateescape\<close> (the file-system encoding is taken to be UTF-8), under which
  a byte that is not part of a well-formed UTF-8 sequence becomes a lone surrogate, so
  that distinct byte strings are distinct texts. \<^verbatim>\<open>sys.stdout\<close> encodes text with
  its own codec and error handler. Under the handler \<^verbatim>\<open>strict\<close> a character
  the codec lacks, and every lone surrogate, raises \<^verbatim>\<open>UnicodeEncodeError\<close>.

  Four settings are written out, as functions on the UTF-8 bytes of a text. UTF-8 with
  \<^verbatim>\<open>strict\<close> returns the bytes themselves when they are well-formed UTF-8.
  UTF-8 with \<^verbatim>\<open>surrogateescape\<close> turns each lone surrogate back into its
  byte, so it returns every byte string as it is. ASCII with \<^verbatim>\<open>strict\<close>
  returns the bytes when each is below 128. Latin-1 with \<^verbatim>\<open>strict\<close> returns
  one byte for each character below U+0100 (the one-byte sequences, and the two-byte
  sequences that start with \<^verbatim>\<open>C2\<close> or \<^verbatim>\<open>C3\<close>) and fails on
  everything else.
\<close>

datatype codec = UTF8 | UTF8_surrogateescape | Latin1 | ASCII

definition is_ascii :: "char \<Rightarrow> bool" where
  "is_ascii c = ((of_char c :: nat) < 128)"

definition is_cont :: "char \<Rightarrow> bool" where
  "is_cont c = (128 \<le> (of_char c :: nat) \<and> (of_char c :: nat) \<le> 191)"

text \<open>Well-formed UTF-8 (Unicode, table 3-7): no overlong form, no surrogate, at most U+10FFFF.\<close>

fun utf8_valid :: "string \<Rightarrow> bool" where
  "utf8_valid [] = True"
| "utf8_valid (a # rest) =
     (let n = (of_char a :: nat) in
      if n < 128 then utf8_valid rest
      else if 194 \<le> n \<and> n \<le> 223 then
        (case rest of
           b # r \<Rightarrow> is_cont b \<and> utf8_valid r
         | _ \<Rightarrow> False)
      else if 224 \<le> n \<and> n \<le> 239 then
        (case rest of
           b # c # r \<Rightarrow>
             is_cont b \<and> is_cont c
             \<and> (if n = 224 then 160 \<le> (of_char b :: nat) else True)
             \<and> (if n = 237 then (of_char b :: nat) \<le> 159 else True)
             \<and> utf8_valid r
         | _ \<Rightarrow> False)
      else if 240 \<le> n \<and> n \<le> 244 then
        (case rest of
           b # c # d # r \<Rightarrow>
             is_cont b \<and> is_cont c \<and> is_cont d
             \<and> (if n = 240 then 144 \<le> (of_char b :: nat) else True)
             \<and> (if n = 244 then (of_char b :: nat) \<le> 143 else True)
             \<and> utf8_valid r
         | _ \<Rightarrow> False)
      else False)"

fun latin1_bytes :: "string \<Rightarrow> string option" where
  "latin1_bytes [] = Some []"
| "latin1_bytes (a # rest) =
     (let n = (of_char a :: nat) in
      if n < 128 then map_option ((#) a) (latin1_bytes rest)
      else if n = 194 \<or> n = 195 then
        (case rest of
           [] \<Rightarrow> None
         | b # r \<Rightarrow>
             if is_cont b
             then map_option ((#) (if n = 194 then b else char_of ((of_char b :: nat) + 64)))
                    (latin1_bytes r)
             else None)
      else None)"

fun encode :: "codec \<Rightarrow> string \<Rightarrow> string option" where
  "encode UTF8 t = (if utf8_valid t then Some t else None)"
| "encode UTF8_surrogateescape t = Some t"
| "encode Latin1 t = latin1_bytes t"
| "encode ASCII t = (if list_all is_ascii t then Some t else None)"

section \<open>The process: environment, standard output, sockets, route table\<close>

text \<open>
  \<^verbatim>\<open>src/app.py\<close> is a script. What it can observe is the process environment
  (\<^verbatim>\<open>os.environ\<close>); what it can change is the environment (through
  \<^verbatim>\<open>load_dotenv\<close>), standard output, and, if a framework were started, the bound
  sockets and the table of registered view functions. The model passes this state
  explicitly. Standard output is the stream of bytes written so far; the stream is taken
  to accept every byte handed to it (no closed pipe, no full disk).

  What the interpreter fixes before the first line of the script runs is kept in the
  record \<open>runtime\<close>: the encoder of \<^verbatim>\<open>sys.stdout\<close> (from text to bytes,
  \<^verbatim>\<open>None\<close> where it raises), the limit
  \<^verbatim>\<open>sys.get_int_max_str_digits()\<close> (4300 by default since CPython 3.11, 0 for
  no limit), and what \<^verbatim>\<open>int\<close> answers on a string with a non-ASCII character,
  which depends on the Unicode database (decimal digits and white space of other
  scripts are accepted) and is a parameter here.
\<close>

type_synonym env = "string \<rightharpoonup> string"

record runtime =
  stdout_encode :: "string \<Rightarrow> string option"
  int_max_str_digits :: nat
  int_non_ascii :: "string \<Rightarrow> int option"

record world =
  environ :: env
  stdout :: string
  ports_in_use :: "int list"
  listeners :: "(string \<times> int) list"
  runtime :: runtime

text \<open>A Python dict literal, as the list of its items in source order.\<close>

type_synonym ('k, 'v) dict = "('k \<times> 'v) list"

datatype http_method = GET | HEAD | POST | PUT | DELETE | OPTIONS | PATCH

record request =
  req_method :: http_method
  path :: string
  query :: "(string \<times> string) list"
  headers :: "(string \<times> string) list"

record response =
  status :: nat
  body :: "(string, string) dict"

text \<open>
  A view function of either framework block takes no parameter (\<^verbatim>\<open>def health():\<close>);
  all it could touch is the process state, so it is a function from the state to a
  response and the state afterwards.
\<close>

type_synonym view = "world \<Rightarrow> response \<times> world"

record interp =
  world :: world
  routes :: "((http_method \<times> string) \<times> view) list"

datatype py_error =
  ValueError | UnicodeEncodeError | AttributeError | OSError | KeyError | AssertionError

text \<open>
  A run of statements either completes, \<^verbatim>\<open>Inr\<close> of the state reached, or stops at
  an exception nothing catches, \<^verbatim>\<open>Inl\<close> of the exception and the state at that
  moment (what was written to standard output before is flushed when the interpreter
  exits). An uncaught exception makes the interpreter exit with status 1.
\<close>

type_synonym outcome = "(py_error \<times> interp) + interp"

definition raised :: "outcome \<Rightarrow> py_error option" where
  "raised r = (case r of Inl (x, s) \<Rightarrow> Some x | Inr s \<Rightarrow> None)"

definition final :: "outcome \<Rightarrow> interp" where
  "final r = (case r of Inl (x, s) \<Rightarrow> s | Inr s \<Rightarrow> s)"

definition exit_status :: "outcome \<Rightarrow> nat" where
  "exit_status r = (case r of Inl _ \<Rightarrow> 1 | Inr _ \<Rightarrow> 0)"

text \<open>One statement after another: the second runs only if the first completed.\<close>

definition then_do :: "outcome \<Rightarrow> (interp \<Rightarrow> outcome) \<Rightarrow> outcome" where
  "then_do r f = (case r of Inl x \<Rightarrow> Inl x | Inr s \<Rightarrow> f s)"

definition start_state :: "runtime \<Rightarrow> env \<Rightarrow> int list \<Rightarrow> interp" where
  "start_state rt e used =
     \<lparr>world = \<lparr>environ = e, stdout = [], ports_in_use = used, listeners = [], runtime = rt\<rparr>,
      routes = []\<rparr>"

section \<open>Library calls the script makes\<close>

text \<open>
  \<^verbatim>\<open>os.getenv(key, default)\<close> returns the string stored under the key, or the default,
  which may be of another type: the Flask block passes the integer \<^verbatim>\<open>8000\<close>.
\<close>

datatype pyval = PStr string | PInt int

definition os_getenv :: "env \<Rightarrow> string \<Rightarrow> pyval \<Rightarrow> pyval" where
  "os_getenv e key dflt = (case e key of Some v \<Rightarrow> PStr v | None \<Rightarrow> dflt)"

definition digit_char :: "nat \<Rightarrow> char" where
  "digit_char d = char_of (48 + d)"

fun decimal_digits :: "nat \<Rightarrow> string" where
  "decimal_digits n =
     (if n < 10 then [digit_char n] else decimal_digits (n div 10) @ [digit_char (n mod 10)])"

text \<open>Formatting inside an f-string: \<^verbatim>\<open>str(v)\<close>.\<close>

fun py_str :: "pyval \<Rightarrow> string" where
  "py_str (PStr s) = s"
| "py_str (PInt i) = (if i < 0 then CHR ''-'' # decimal_digits (nat (- i)) else decimal_digits (nat i))"

text \<open>
  \<^verbatim>\<open>sys.stdout.write(text)\<close> encodes the whole text and appends the bytes to the
  stream; when the encoder rejects the text it raises and appends nothing.
  \<^verbatim>\<open>print(text)\<close> writes the text and then the line end \<^verbatim>\<open>"\n"\<close>, in two
  calls of \<^verbatim>\<open>write\<close>.
\<close>

definition newline :: string where
  "newline = [CHR 0x0A]"

definition stdout_write :: "string \<Rightarrow> interp \<Rightarrow> outcome" where
  "stdout_write t s =
     (case stdout_encode (runtime (world s)) t of
        None \<Rightarrow> Inl (UnicodeEncodeError, s)
      | Some b \<Rightarrow> Inr (s\<lparr>world := (world s)\<lparr>stdout := stdout (world s) @ b\<rparr>\<rparr>))"

definition print :: "string \<Rightarrow> interp \<Rightarrow> outcome" where
  "print t s = then_do (stdout_write t s) (stdout_write newline)"

text \<open>
  \<^verbatim>\<open>load_dotenv()\<close> (python-dotenv, default \<^verbatim>\<open>override=False\<close>) copies each
  key of the \<^verbatim>\<open>.env\<close> file that the environment does not already define. The
  parsed content of the file is a parameter; it is empty when there is no file. The file
  is taken to be one that \<^verbatim>\<open>load_dotenv\<close> can read.
\<close>

definition load_dotenv :: "env \<Rightarrow> interp \<Rightarrow> interp" where
  "load_dotenv dotenv s = s\<lparr>world := (world s)\<lparr>environ := dotenv ++ environ (world s)\<rparr>\<rparr>"

section \<open>The executed program: \<^verbatim>\<open>main\<close> and the module body\<close>

definition main :: "interp \<Rightarrow> outcome" where
  "main s0 =
     then_do (print ''Python Web Application'' s0) (\<lambda>s1.
     then_do (print ''Please uncomment and configure your chosen framework above.'' s1) (\<lambda>s2.
     then_do (print (''Environment: '' @
                py_str (os_getenv (environ (world s2)) ''ENVIRONMENT'' (PStr ''development''))) s2) (\<lambda>s3.
     print (''Port: '' @ py_str (os_getenv (environ (world s3)) ''PORT'' (PStr ''8000''))) s3)))"

text \<open>
  The module body run as a script: the import-time call of \<^verbatim>\<open>load_dotenv\<close>, the two
  triple-quoted blocks (expression statements whose value, a string, is discarded),
  the definition of \<^verbatim>\<open>main\<close>, and the call of \<^verbatim>\<open>main\<close> under
  \<^verbatim>\<open>if __name__ == '__main__'\<close>. Nothing catches what \<^verbatim>\<open>main\<close> raises.
\<close>

definition app_module :: "env \<Rightarrow> interp \<Rightarrow> outcome" where
  "app_module dotenv s = main (load_dotenv dotenv s)"

text \<open>
  Writing a list of texts in order, stopping at the first one that raises: the shape of
  what \<^verbatim>\<open>main\<close> does, used to state it.
\<close>

fun write_all :: "string list \<Rightarrow> interp \<Rightarrow> outcome" where
  "write_all [] s = Inr s"
| "write_all (t # ts) s = then_do (stdout_write t s) (write_all ts)"

text \<open>
  The bytes that writing a list of texts appends to the stream under an encoder: the
  encodings of the texts before the first one the encoder rejects.
\<close>

fun emitted :: "(string \<Rightarrow> string option) \<Rightarrow> string list \<Rightarrow> string" where
  "emitted enc [] = []"
| "emitted enc (t # ts) = (case enc t of None \<Rightarrow> [] | Some b \<Rightarrow> b @ emitted enc ts)"

section \<open>String operations of the commented blocks\<close>

text \<open>
  \<^verbatim>\<open>str.lower\<close> on ASCII letters, and \<^verbatim>\<open>int\<close>. On a string of ASCII
  characters \<^verbatim>\<open>int\<close> accepts optional surrounding white space (tab, line feed,
  vertical tab, form feed, carriage return, space), an optional sign, and decimal digits
  with single underscores between digits; it raises \<^verbatim>\<open>ValueError\<close> on anything
  else, and also when the limit is positive and the string has more digits than both the
  limit and 640 (underscores do not count, leading zeros do). On a string with a
  non-ASCII character it answers what the parameter \<open>int_non_ascii\<close> says.
\<close>

definition lower_char :: "char \<Rightarrow> char" where
  "lower_char c = (let n = (of_char c :: nat) in if 65 \<le> n \<and> n \<le> 90 then char_of (n + 32) else c)"

definition lower :: "string \<Rightarrow> string" where
  "lower s = map lower_char s"

fun str_lower :: "pyval \<Rightarrow> py_error + string" where
  "str_lower (PStr s) = Inr (lower s)"
| "str_lower (PInt i) = Inl AttributeError"

definition is_space :: "char \<Rightarrow> bool" where
  "is_space c = ((of_char c :: nat) \<in> {9, 10, 11, 12, 13, 32})"

definition strip :: "string \<Rightarrow> string" where
  "strip s = rev (dropWhile is_space (rev (dropWhile is_space s)))"

definition is_digit :: "char \<Rightarrow> bool" where
  "is_digit c = (48 \<le> (of_char c :: nat) \<and> (of_char c :: nat) \<le> 57)"

definition digit_val :: "char \<Rightarrow> nat" where
  "digit_val c = of_char c - 48"

fun digits_value :: "nat \<Rightarrow> string \<Rightarrow> nat option" where
  "digits_value acc [] = Some acc"
| "digits_value acc (c # cs) =
     (if is_digit c then digits_value (10 * acc + digit_val c) cs
      else if c = CHR ''_'' then
        (case cs of
           [] \<Rightarrow> None
         | d # ds \<Rightarrow> if is_digit d then digits_value (10 * acc + digit_val d) ds else None)
      else None)"

definition too_many_digits :: "nat \<Rightarrow> string \<Rightarrow> bool" where
  "too_many_digits limit s =
     (0 < limit \<and> 640 < length (filter is_digit s) \<and> limit < length (filter is_digit s))"

definition parse_nat :: "nat \<Rightarrow> string \<Rightarrow> nat option" where
  "parse_nat limit s =
     (case s of
        [] \<Rightarrow> None
      | c # cs \<Rightarrow>
          if is_digit c then
            (case digits_value (digit_val c) cs of
               None \<Rightarrow> None
             | Some n \<Rightarrow> if too_many_digits limit s then None else Some n)
          else None)"

definition parse_int_ascii :: "nat \<Rightarrow> string \<Rightarrow> int option" where
  "parse_int_ascii limit s =
     (case strip s of
        [] \<Rightarrow> None
      | c # cs \<Rightarrow>
          if c = CHR ''-'' then map_option (\<lambda>n. - int n) (parse_nat limit cs)
          else if c = CHR ''+'' then map_option int (parse_nat limit cs)
          else map_option int (parse_nat limit (c # cs)))"

definition parse_int :: "runtime \<Rightarrow> string \<Rightarrow> int option" where
  "parse_int rt s =
     (if list_all is_ascii s then parse_int_ascii (int_max_str_digits rt) s
      else int_non_ascii rt s)"

fun py_int :: "runtime \<Rightarrow> pyval \<Rightarrow> py_error + int" where
  "py_int rt (PInt i) = Inr i"
| "py_int rt (PStr s) = (case parse_int rt s of None \<Rightarrow> Inl ValueError | Some i \<Rightarrow> Inr i)"

section \<open>The Flask block (first triple-quoted string of \<^verbatim>\<open>src/app.py\<close>)\<close>

text \<open>
  The text of the block, read as the program it would be once uncommented. The view
  functions return the pair of \<^verbatim>\<open>jsonify(...)\<close> and the status \<^verbatim>\<open>200\<close>;
  \<^verbatim>\<open>@app.route(path)\<close> registers the view for \<^verbatim>\<open>GET\<close> on that path (Flask
  adds \<^verbatim>\<open>HEAD\<close> and \<^verbatim>\<open>OPTIONS\<close> on its own; they are left out). The framework's
  \<^verbatim>\<open>app.run\<close> is the parameter \<open>run\<close>.
\<close>

definition jsonify :: "(string, string) dict \<Rightarrow> (string, string) dict" where
  "jsonify d = d"

definition flask_health :: view where
  "flask_health w =
     (\<lparr>status = 200, body = jsonify [(''status'', ''healthy''), (''version'', ''1.0.0'')]\<rparr>, w)"

definition flask_index :: view where
  "flask_index w = (\<lparr>status = 200, body = jsonify [(''message'', ''Welcome to the API'')]\<rparr>, w)"

definition flask_routes :: "((http_method \<times> string) \<times> view) list" where
  "flask_routes = [((GET, ''/health''), flask_health), ((GET, ''/''), flask_index)]"

definition flask_debug :: "env \<Rightarrow> py_error + bool" where
  "flask_debug e =
     (case str_lower (os_getenv e ''DEBUG'' (PStr ''False'')) of
        Inl x \<Rightarrow> Inl x
      | Inr l \<Rightarrow> Inr (l = ''true''))"

definition flask_main ::
  "(string \<Rightarrow> int \<Rightarrow> bool \<Rightarrow> interp \<Rightarrow> outcome) \<Rightarrow> interp \<Rightarrow> outcome" where
  "flask_main run s =
     (case py_int (runtime (world s)) (os_getenv (environ (world s)) ''PORT'' (PInt 8000)) of
        Inl x \<Rightarrow> Inl (x, s)
      | Inr port \<Rightarrow>
          (case flask_debug (environ (world s)) of
             Inl x \<Rightarrow> Inl (x, s)
           | Inr debug \<Rightarrow> run ''0.0.0.0'' port debug s))"

definition flask_block ::
  "(string \<Rightarrow> int \<Rightarrow> bool \<Rightarrow> interp \<Rightarrow> outcome) \<Rightarrow> interp \<Rightarrow> outcome" where
  "flask_block run s = flask_main run (s\<lparr>routes := routes s @ flask_routes\<rparr>)"

section \<open>The FastAPI block (second triple-quoted string)\<close>

text \<open>
  Here the view functions return the dict alone; the framework answers with it as the
  JSON body under its default status \<^verbatim>\<open>200\<close>. \<^verbatim>\<open>uvicorn.run\<close> is the parameter
  \<open>run\<close>.
\<close>

definition fastapi_health :: "world \<Rightarrow> (string, string) dict \<times> world" where
  "fastapi_health w = ([(''status'', ''healthy''), (''version'', ''1.0.0'')], w)"

definition fastapi_root :: "world \<Rightarrow> (string, string) dict \<times> world" where
  "fastapi_root w = ([(''message'', ''Welcome to the API'')], w)"

definition json_response :: "(world \<Rightarrow> (string, string) dict \<times> world) \<Rightarrow> view" where
  "json_response f w = (case f w of (d, w') \<Rightarrow> (\<lparr>status = 200, body = d\<rparr>, w'))"

definition fastapi_routes :: "((http_method \<times> string) \<times> view) list" where
  "fastapi_routes =
     [((GET, ''/health''), json_response fastapi_health), ((GET, ''/''), json_response fastapi_root)]"

definition fastapi_main ::
  "(string \<Rightarrow> int \<Rightarrow> interp \<Rightarrow> outcome) \<Rightarrow> interp \<Rightarrow> outcome" where
  "fastapi_main run s =
     (case py_int (runtime (world s)) (os_getenv (environ (world s)) ''PORT'' (PInt 8000)) of
        Inl x \<Rightarrow> Inl (x, s)
      | Inr port \<Rightarrow> run ''0.0.0.0'' port s)"

definition fastapi_block ::
  "(string \<Rightarrow> int \<Rightarrow> interp \<Rightarrow> outcome) \<Rightarrow> interp \<Rightarrow> outcome" where
  "fastapi_block run s = fastapi_main run (s\<lparr>routes := routes s @ fastapi_routes\<rparr>)"

section \<open>Answering requests from the route table\<close>

text \<open>
  A request is answered by the view registered for its method and path; the view never
  sees the request. \<^verbatim>\<open>None\<close> stands for "no view of the program answered".
\<close>

definition serve :: "interp \<Rightarrow> request \<Rightarrow> response option \<times> interp" where
  "serve s r =
     (case map_of (routes s) (req_method r, path r) of
        None \<Rightarrow> (None, s)
      | Some v \<Rightarrow> (case v (world s) of (resp, w') \<Rightarrow> (Some resp, s\<lparr>world := w'\<rparr>)))"

fun serve_n :: "interp \<Rightarrow> request \<Rightarrow> nat \<Rightarrow> response option list \<times> interp" where
  "serve_n s r 0 = ([], s)"
| "serve_n s r (Suc n) =
     (case serve s r of (a, s') \<Rightarrow> (case serve_n s' r n of (as, s'') \<Rightarrow> (a # as, s'')))"

section \<open>Stand-ins for concrete inputs\<close>

text \<open>
  Stand-ins for the frameworks' run calls up to the point where they accept connections:
  binding the socket succeeds unless the port is taken. They only serve to instantiate
  the parameter \<open>run\<close> at concrete inputs.
\<close>

definition listen :: "string \<Rightarrow> int \<Rightarrow> interp \<Rightarrow> outcome" where
  "listen host port s =
     (if port \<in> set (ports_in_use (world s)) then Inl (OSError, s)
      else Inr (s\<lparr>world := (world s)\<lparr>listeners := listeners (world s) @ [(host, port)]\<rparr>\<rparr>))"

definition app_run :: "string \<Rightarrow> int \<Rightarrow> bool \<Rightarrow> interp \<Rightarrow> outcome" where
  "app_run host port debug s = listen host port s"

definition uvicorn_run :: "string \<Rightarrow> int \<Rightarrow> interp \<Rightarrow> outcome" where
  "uvicorn_run host port s = listen host port s"


definition runtime_of :: "codec \<Rightarrow> runtime" where
  "runtime_of c =
     \<lparr>stdout_encode = encode c, int_max_str_digits = 4300, int_non_ascii = (\<lambda>s. None)\<rparr>"



section \<open>The test suite: \<^verbatim>\<open>tests/conftest.py\<close> and \<^verbatim>\<open>tests/test_example.py\<close>\<close>

definition sample_data :: "(string, (string, string) dict) dict" where
  "sample_data = [(''user'', [(''username'', ''testuser''), (''email'', ''test@example.com'')])]"

definition dict_contains :: "'k \<Rightarrow> ('k, 'v) dict \<Rightarrow> bool" where
  "dict_contains k d = (map_of d k \<noteq> None)"

definition dict_getitem :: "('k, 'v) dict \<Rightarrow> 'k \<Rightarrow> py_error + 'v" where
  "dict_getitem d k = (case map_of d k of None \<Rightarrow> Inl KeyError | Some v \<Rightarrow> Inr v)"

definition py_assert :: "bool \<Rightarrow> py_error + unit" where
  "py_assert b = (if b then Inr () else Inl AssertionError)"

definition test_example_pass :: "py_error + unit" where
  "test_example_pass = py_assert True"

definition test_addition :: "py_error + unit" where
  "test_addition = (let result = (2::int) + 2 in py_assert (result = 4))"

definition test_with_fixture :: "(string, (string, string) dict) dict \<Rightarrow> py_error + unit" where
  "test_with_fixture data =
     (case py_assert (dict_contains ''user'' data) of
        Inl x \<Rightarrow> Inl x
      | Inr _ \<Rightarrow>
          (case dict_getitem data ''user'' of
             Inl x \<Rightarrow> Inl x
           | Inr u \<Rightarrow>
               (case dict_getitem u ''username'' of
                  Inl x \<Rightarrow> Inl x
                | Inr n \<Rightarrow> py_assert (n = ''testuser''))))"

section \<open>Auxiliary facts\<close>

lemma py_str_getenv:
  "py_str (os_getenv e k (PStr d)) = (case e k of None \<Rightarrow> d | Some v \<Rightarrow> v)"
  by (simp add: os_getenv_def split: option.split)

lemma write_all_eq:
  "write_all ts s =
     (if list_all (\<lambda>t. stdout_encode (runtime (world s)) t \<noteq> None) ts
      then Inr (s\<lparr>world := (world s)\<lparr>stdout := stdout (world s) @
                    emitted (stdout_encode (runtime (world s))) ts\<rparr>\<rparr>)
      else Inl (UnicodeEncodeError,
             s\<lparr>world := (world s)\<lparr>stdout := stdout (world s) @
                    emitted (stdout_encode (runtime (world s))) ts\<rparr>\<rparr>))"
proof (induction ts arbitrary: s)
  case Nil
  show ?case by simp
next
  case (Cons t ts)
  show ?case
  proof (cases "stdout_encode (runtime (world s)) t")
    case None
    then show ?thesis
      by (simp add: stdout_write_def then_do_def)
  next
    case (Some b)
    then show ?thesis
      by (simp add: stdout_write_def then_do_def Cons.IH)
  qed
qed

lemma print_write_all: "print t s = write_all [t, newline] s"
  by (simp add: print_def then_do_def split: sum.split)

lemma write_all_append:
  "write_all (xs @ ys) s = then_do (write_all xs s) (write_all ys)"
  by (induction xs arbitrary: s) (simp_all add: then_do_def split: sum.split)

lemma write_all_Inr_environ:
  "write_all ts s = Inr s' \<Longrightarrow> environ (world s') = environ (world s)"
  by (auto simp: write_all_eq split: if_splits)

lemma then_do_write_all_cong:
  assumes "\<And>s'. write_all xs s = Inr s' \<Longrightarrow> f s' = write_all ys s'"
  shows "then_do (write_all xs s) f = write_all (xs @ ys) s"
  using assms by (simp add: write_all_append then_do_def split: sum.split)

lemma main_write_all:
  "main s = write_all
      [''Python Web Application'', newline,
       ''Please uncomment and configure your chosen framework above.'', newline,
       ''Environment: '' @
         (case environ (world s) ''ENVIRONMENT'' of None \<Rightarrow> ''development'' | Some v \<Rightarrow> v), newline,
       ''Port: '' @
         (case environ (world s) ''PORT'' of None \<Rightarrow> ''8000'' | Some v \<Rightarrow> v), newline] s"
proof -
  let ?l1 = "''Python Web Application''"
  let ?l2 = "''Please uncomment and configure your chosen framework above.''"
  let ?l3 = "''Environment: '' @
         (case environ (world s) ''ENVIRONMENT'' of None \<Rightarrow> ''development'' | Some v \<Rightarrow> v)"
  let ?l4 = "''Port: '' @
         (case environ (world s) ''PORT'' of None \<Rightarrow> ''8000'' | Some v \<Rightarrow> v)"
  have "main s =
     then_do (write_all [?l1, newline] s) (\<lambda>s1.
     then_do (write_all [?l2, newline] s1) (\<lambda>s2.
     then_do (write_all [''Environment: '' @
         (case environ (world s2) ''ENVIRONMENT'' of None \<Rightarrow> ''development'' | Some v \<Rightarrow> v), newline] s2)
       (\<lambda>s3. write_all [''Port: '' @
         (case environ (world s3) ''PORT'' of None \<Rightarrow> ''8000'' | Some v \<Rightarrow> v), newline] s3)))"
    unfolding main_def print_write_all py_str_getenv ..
  also have "\<dots> = write_all ([?l1, newline] @ [?l2, newline, ?l3, newline, ?l4, newline]) s"
  proof (rule then_do_write_all_cong)
    fix s1 assume 1: "write_all [?l1, newline] s = Inr s1"
    have e1: "environ (world s1) = environ (world s)"
      by (rule write_all_Inr_environ [OF 1])
    show "then_do (write_all [?l2, newline] s1) (\<lambda>s2.
     then_do (write_all [''Environment: '' @
         (case environ (world s2) ''ENVIRONMENT'' of None \<Rightarrow> ''development'' | Some v \<Rightarrow> v), newline] s2)
       (\<lambda>s3. write_all [''Port: '' @
         (case environ (world s3) ''PORT'' of None \<Rightarrow> ''8000'' | Some v \<Rightarrow> v), newline] s3))
       = write_all [?l2, newline, ?l3, newline, ?l4, newline] s1"
    proof -
      have "then_do (write_all [?l2, newline] s1) (\<lambda>s2.
         then_do (write_all [''Environment: '' @
         (case environ (world s2) ''ENVIRONMENT'' of None \<Rightarrow> ''development'' | Some v \<Rightarrow> v), newline] s2)
       (\<lambda>s3. write_all [''Port: '' @
         (case environ (world s3) ''PORT'' of None \<Rightarrow> ''8000'' | Some v \<Rightarrow> v), newline] s3))
         = write_all ([?l2, newline] @ [?l3, newline, ?l4, newline]) s1"
      proof (rule then_do_write_all_cong)
        fix s2 assume 2: "write_all [?l2, newline] s1 = Inr s2"
        have e2: "environ (world s2) = environ (world s)"
          using write_all_Inr_environ [OF 2] e1 by simp
        have "then_do (write_all [''Environment: '' @
         (case environ (world s2) ''ENVIRONMENT'' of None \<Rightarrow> ''development'' | Some v \<Rightarrow> v), newline] s2)
       (\<lambda>s3. write_all [''Port: '' @
         (case environ (world s3) ''PORT'' of None \<Rightarrow> ''8000'' | Some v \<Rightarrow> v), newline] s3)
          = write_all ([?l3, newline] @ [?l4, newline]) s2"
          unfolding e2
        proof (rule then_do_write_all_cong)
          fix s3 assume 3: "write_all [?l3, newline] s2 = Inr s3"
          have e3: "environ (world s3) = environ (world s)"
            using write_all_Inr_environ [OF 3] e2 by simp
          show "write_all [''Port: '' @
         (case environ (world s3) ''PORT'' of None \<Rightarrow> ''8000'' | Some v \<Rightarrow> v), newline] s3
            = write_all [?l4, newline] s3"
            unfolding e3 ..
        qed
        then show "then_do (write_all [''Environment: '' @
         (case environ (world s2) ''ENVIRONMENT'' of None \<Rightarrow> ''development'' | Some v \<Rightarrow> v), newline] s2)
       (\<lambda>s3. write_all [''Port: '' @
         (case environ (world s3) ''PORT'' of None \<Rightarrow> ''8000'' | Some v \<Rightarrow> v), newline] s3)
          = write_all [?l3, newline, ?l4, newline] s2"
          by simp
      qed
      then show ?thesis by simp
    qed
  qed
  also have "\<dots> = write_all [?l1, newline, ?l2, newline, ?l3, newline, ?l4, newline] s"
    by simp
  finally show ?thesis .
qed

lemma utf8_valid_ascii_append:
  "list_all is_ascii a \<Longrightarrow> utf8_valid (a @ b) = utf8_valid b"
  by (induction a) (simp_all add: is_ascii_def)

lemma utf8_valid_ascii: "list_all is_ascii a \<Longrightarrow> utf8_valid a"
  using utf8_valid_ascii_append [of a "[]"] by simp

lemma latin1_bytes_ascii: "list_all is_ascii a \<Longrightarrow> latin1_bytes a = Some a"
  by (induction a) (simp_all add: is_ascii_def)

lemma encode_ascii: "list_all is_ascii a \<Longrightarrow> encode c a = Some a"
  by (cases c) (simp_all add: utf8_valid_ascii latin1_bytes_ascii)

lemma newline_ascii: "list_all is_ascii newline"
  by (simp add: newline_def is_ascii_def)

lemma encode_newline: "encode c newline = Some newline"
  by (rule encode_ascii [OF newline_ascii])























lemma lower_char_eq_iff:
  assumes "97 \<le> (of_char t :: nat)" "(of_char t :: nat) \<le> 122"
  shows "lower_char c = t \<longleftrightarrow> c = t \<or> (of_char c :: nat) + 32 = of_char t"
proof -
  define n where "n = (of_char c :: nat)"
  define k where "k = (of_char t :: nat)"
  have c: "c = char_of n" and t: "t = char_of k" by (simp_all add: n_def k_def)
  have n: "n < 256" and k: "k < 256" by (simp_all add: n_def k_def)
  have "lower_char (char_of n) = char_of k \<longleftrightarrow> char_of n = char_of k \<or> n + 32 = k"
    using assms n k unfolding lower_char_def Let_def k_def [symmetric] by auto
  then show ?thesis
    by (simp add: n_def k_def)
qed

lemma of_char_eq_numeral:
  "(of_char c :: nat) + 32 = 116 \<longleftrightarrow> c = CHR ''T''"
  "(of_char c :: nat) + 32 = 114 \<longleftrightarrow> c = CHR ''R''"
  "(of_char c :: nat) + 32 = 117 \<longleftrightarrow> c = CHR ''U''"
  "(of_char c :: nat) + 32 = 101 \<longleftrightarrow> c = CHR ''E''"
  using of_char_eq_iff [of c "CHR ''T''", where ?'a = nat]
        of_char_eq_iff [of c "CHR ''R''", where ?'a = nat]
        of_char_eq_iff [of c "CHR ''U''", where ?'a = nat]
        of_char_eq_iff [of c "CHR ''E''", where ?'a = nat]
  by auto

lemma lower_char_t: "lower_char c = CHR ''t'' \<longleftrightarrow> c = CHR ''t'' \<or> c = CHR ''T''"
  using lower_char_eq_iff [of "CHR ''t''" c] by (simp add: of_char_eq_numeral)

lemma lower_char_r: "lower_char c = CHR ''r'' \<longleftrightarrow> c = CHR ''r'' \<or> c = CHR ''R''"
  using lower_char_eq_iff [of "CHR ''r''" c] by (simp add: of_char_eq_numeral)

lemma lower_char_u: "lower_char c = CHR ''u'' \<longleftrightarrow> c = CHR ''u'' \<or> c = CHR ''U''"
  using lower_char_eq_iff [of "CHR ''u''" c] by (simp add: of_char_eq_numeral)

lemma lower_char_e: "lower_char c = CHR ''e'' \<longleftrightarrow> c = CHR ''e'' \<or> c = CHR ''E''"
  using lower_char_eq_iff [of "CHR ''e''" c] by (simp add: of_char_eq_numeral)

lemma lower_true_iff:
  "lower v = ''true'' \<longleftrightarrow>
   (\<exists>a b c d. v = [a, b, c, d] \<and> a \<in> {CHR ''t'', CHR ''T''} \<and> b \<in> {CHR ''r'', CHR ''R''}
      \<and> c \<in> {CHR ''u'', CHR ''U''} \<and> d \<in> {CHR ''e'', CHR ''E''})"
proof
  assume "lower v = ''true''"
  then obtain a b c d where v: "v = [a, b, c, d]"
    and "lower_char a = CHR ''t''" "lower_char b = CHR ''r''"
        "lower_char c = CHR ''u''" "lower_char d = CHR ''e''"
    unfolding lower_def by (auto simp: map_eq_Cons_conv)
  then show "\<exists>a b c d. v = [a, b, c, d] \<and> a \<in> {CHR ''t'', CHR ''T''} \<and> b \<in> {CHR ''r'', CHR ''R''}
      \<and> c \<in> {CHR ''u'', CHR ''U''} \<and> d \<in> {CHR ''e'', CHR ''E''}"
    by (simp add: lower_char_t lower_char_r lower_char_u lower_char_e)
next
  assume "\<exists>a b c d. v = [a, b, c, d] \<and> a \<in> {CHR ''t'', CHR ''T''} \<and> b \<in> {CHR ''r'', CHR ''R''}
      \<and> c \<in> {CHR ''u'', CHR ''U''} \<and> d \<in> {CHR ''e'', CHR ''E''}"
  then obtain a b c d where v: "v = [a, b, c, d]"
    and "lower_char a = CHR ''t''" "lower_char b = CHR ''r''"
        "lower_char c = CHR ''u''" "lower_char d = CHR ''e''"
    by (auto simp: lower_char_t lower_char_r lower_char_u lower_char_e)
  then show "lower v = ''true''"
    by (simp add: lower_def)
qed

lemma flask_debug_eq:
  "flask_debug e = Inr (case e ''DEBUG'' of None \<Rightarrow> False | Some v \<Rightarrow> lower v = ''true'')"
  by (simp add: flask_debug_def os_getenv_def lower_def split: option.split)

lemma serve_empty: "routes s = [] \<Longrightarrow> serve s r = (None, s)"
  by (simp add: serve_def)

lemma serve_flask:
  "routes s = flask_routes \<Longrightarrow>
   serve s r =
     (if req_method r = GET \<and> path r = ''/health''
      then Some \<lparr>status = 200, body = [(''status'', ''healthy''), (''version'', ''1.0.0'')]\<rparr>
      else if req_method r = GET \<and> path r = ''/''
      then Some \<lparr>status = 200, body = [(''message'', ''Welcome to the API'')]\<rparr>
      else None, s)"
  by (simp add: serve_def flask_routes_def flask_health_def flask_index_def jsonify_def)

lemma serve_fastapi:
  "routes s = fastapi_routes \<Longrightarrow>
   serve s r =
     (if req_method r = GET \<and> path r = ''/health''
      then Some \<lparr>status = 200, body = [(''status'', ''healthy''), (''version'', ''1.0.0'')]\<rparr>
      else if req_method r = GET \<and> path r = ''/''
      then Some \<lparr>status = 200, body = [(''message'', ''Welcome to the API'')]\<rparr>
      else None, s)"
  by (simp add: serve_def fastapi_routes_def fastapi_health_def fastapi_root_def json_response_def)

lemma serve_keeps_state:
  assumes "routes s = [] \<or> routes s = flask_routes \<or> routes s = fastapi_routes"
  shows "snd (serve s r) = s"
  using assms by (auto simp: serve_empty serve_flask serve_fastapi)

lemma serve_n_fixed:
  assumes "snd (serve s r) = s"
  shows "serve_n s r n = (replicate n (fst (serve s r)), s)"
proof (induction n)
  case 0
  show ?case by simp
next
  case (Suc n)
  from assms have step: "serve s r = (fst (serve s r), s)"
    by (metis prod.collapse)
  have "serve_n s r (Suc n) =
          (case serve s r of (a, s') \<Rightarrow> (case serve_n s' r n of (as, s'') \<Rightarrow> (a # as, s'')))"
    by simp
  also have "\<dots> = (case serve_n s r n of (as, s'') \<Rightarrow> (fst (serve s r) # as, s''))"
    by (subst step) simp
  also have "\<dots> = (replicate (Suc n) (fst (serve s r)), s)"
    by (simp add: Suc)
  finally show ?case .
qed

lemma outcome_simps:
  "raised (Inl (x, s)) = Some x" "raised (Inr s) = None"
  "final (Inl (x, s)) = s" "final (Inr s) = s"
  "exit_status (Inl (x, s)) = 1" "exit_status (Inr s) = 0"
  by (simp_all add: raised_def final_def exit_status_def)










lemma banner_ascii:
  "list_all is_ascii ''Python Web Application''"
  "list_all is_ascii ''Please uncomment and configure your chosen framework above.''"
  "list_all is_ascii ''Environment: ''"
  "list_all is_ascii ''Port: ''"
  by (simp_all add: is_ascii_def)

lemma main_encoded:
  assumes enc: "stdout_encode (runtime (world s)) = encode c"
    and b3: "encode c (''Environment: '' @
        (case environ (world s) ''ENVIRONMENT'' of None \<Rightarrow> ''development'' | Some v \<Rightarrow> v)) = Some b3"
    and b4: "encode c (''Port: '' @
        (case environ (world s) ''PORT'' of None \<Rightarrow> ''8000'' | Some v \<Rightarrow> v)) = Some b4"
  shows "main s = Inr (s\<lparr>world := (world s)\<lparr>stdout := stdout (world s) @
      ''Python Web Application'' @ newline @
      ''Please uncomment and configure your chosen framework above.'' @ newline @
      b3 @ newline @ b4 @ newline\<rparr>\<rparr>)"
  unfolding main_write_all write_all_eq enc
  using b3 b4
  by (simp add: encode_newline encode_ascii [OF banner_ascii(1)] encode_ascii [OF banner_ascii(2)])



lemma default_run:
  "app_module Map.empty (start_state (runtime_of c) Map.empty used) =
     Inr \<lparr>world = \<lparr>environ = Map.empty,
                    stdout = ''Python Web Application'' @ newline @
                      ''Please uncomment and configure your chosen framework above.'' @ newline @
                      ''Environment: development'' @ newline @ ''Port: 8000'' @ newline,
                    ports_in_use = used, listeners = [], runtime = runtime_of c\<rparr>,
          routes = []\<rparr>"
proof -
  let ?s = "load_dotenv Map.empty (start_state (runtime_of c) Map.empty used)"
  have enc: "stdout_encode (runtime (world ?s)) = encode c"
    by (simp add: load_dotenv_def start_state_def runtime_of_def)
  have e: "environ (world ?s) = Map.empty"
    by (simp add: load_dotenv_def start_state_def)
  have b3: "encode c (''Environment: '' @
        (case environ (world ?s) ''ENVIRONMENT'' of None \<Rightarrow> ''development'' | Some v \<Rightarrow> v))
        = Some ''Environment: development''"
    unfolding e by (simp add: encode_ascii is_ascii_def)
  have b4: "encode c (''Port: '' @
        (case environ (world ?s) ''PORT'' of None \<Rightarrow> ''8000'' | Some v \<Rightarrow> v))
        = Some ''Port: 8000''"
    unfolding e by (simp add: encode_ascii is_ascii_def)
  show ?thesis
    unfolding app_module_def main_encoded [OF enc b3 b4]
    by (simp add: load_dotenv_def start_state_def)
qed












section \<open>The HTTP surface\<close>

text \<open>
  The program as shipped registers no view and binds no socket: run from an empty
  environment, with UTF-8 as the codec of standard output, it ends normally and leaves
  the route table empty, so a \<^verbatim>\<open>GET /health\<close> request is answered by no view of
  the program. This is the input at which C1, read as a statement about the running
  program, fails.
\<close>

theorem shipped_program_has_no_health_route:
  "raised (app_module Map.empty (start_state (runtime_of UTF8) Map.empty [])) = None
   \<and> fst (serve (final (app_module Map.empty (start_state (runtime_of UTF8) Map.empty [])))
        \<lparr>req_method = GET, path = ''/health'', query = [], headers = []\<rparr>) = None
   \<and> listeners (world (final (app_module Map.empty (start_state (runtime_of UTF8) Map.empty []))))
        = []"
  unfolding default_run by (simp add: outcome_simps serve_empty)

text \<open>
  C1, as amended: for every \<^verbatim>\<open>GET\<close> request to \<^verbatim>\<open>/health\<close>, whatever its
  headers and query parameters, the view that the commented Flask block (and likewise
  the commented FastAPI block) registers answers with status 200 and the body
  \<^verbatim>\<open>{"status": "healthy", "version": "1.0.0"}\<close>, and leaves the process state as it
  was.
\<close>

theorem health_view_answers_200:
  assumes "req_method r = GET" and "path r = ''/health''"
    and "routes s = flask_routes \<or> routes s = fastapi_routes"
  shows "serve s r =
    (Some \<lparr>status = 200, body = [(''status'', ''healthy''), (''version'', ''1.0.0'')]\<rparr>, s)"
  using assms by (auto simp: serve_flask serve_fastapi)

text \<open>
  The Flask block started from an empty environment with no port taken, then asked for
  \<^verbatim>\<open>/health\<close> with a query parameter and a header.
\<close>

theorem health_view_answers_200_witness:
  "flask_block app_run (start_state (runtime_of UTF8) Map.empty []) =
     Inr \<lparr>world = \<lparr>environ = Map.empty, stdout = [], ports_in_use = [],
                    listeners = [(''0.0.0.0'', 8000)], runtime = runtime_of UTF8\<rparr>,
          routes = flask_routes\<rparr>
   \<and> serve \<lparr>world = \<lparr>environ = Map.empty, stdout = [], ports_in_use = [],
                    listeners = [(''0.0.0.0'', 8000)], runtime = runtime_of UTF8\<rparr>,
            routes = flask_routes\<rparr>
        \<lparr>req_method = GET, path = ''/health'', query = [(''verbose'', ''1'')],
         headers = [(''Accept'', ''text/html'')]\<rparr> =
     (Some \<lparr>status = 200, body = [(''status'', ''healthy''), (''version'', ''1.0.0'')]\<rparr>,
      \<lparr>world = \<lparr>environ = Map.empty, stdout = [], ports_in_use = [],
                    listeners = [(''0.0.0.0'', 8000)], runtime = runtime_of UTF8\<rparr>,
            routes = flask_routes\<rparr>)"
  using health_view_answers_200
    [of "\<lparr>req_method = GET, path = ''/health'', query = [(''verbose'', ''1'')],
          headers = [(''Accept'', ''text/html'')]\<rparr>"
        "\<lparr>world = \<lparr>environ = Map.empty, stdout = [], ports_in_use = [],
                    listeners = [(''0.0.0.0'', 8000)], runtime = runtime_of UTF8\<rparr>,
            routes = flask_routes\<rparr>"]
  by (simp add: flask_block_def flask_main_def flask_debug_eq os_getenv_def app_run_def
      listen_def start_state_def)

text \<open>
  The same for \<^verbatim>\<open>GET /\<close>: the shipped program has no view for it. This is the
  input at which C2, read as a statement about the running program, fails.
\<close>

theorem shipped_program_has_no_index_route:
  "raised (app_module Map.empty (start_state (runtime_of UTF8) Map.empty [])) = None
   \<and> fst (serve (final (app_module Map.empty (start_state (runtime_of UTF8) Map.empty [])))
        \<lparr>req_method = GET, path = ''/'', query = [], headers = []\<rparr>) = None
   \<and> listeners (world (final (app_module Map.empty (start_state (runtime_of UTF8) Map.empty []))))
        = []"
  unfolding default_run by (simp add: outcome_simps serve_empty)

text \<open>
  C2, as amended: for every \<^verbatim>\<open>GET\<close> request to \<^verbatim>\<open>/\<close>, the view that the
  commented Flask block (\<^verbatim>\<open>index\<close>) and the commented FastAPI block
  (\<^verbatim>\<open>root\<close>) register answers with status 200 and the body
  \<^verbatim>\<open>{"message": "Welcome to the API"}\<close>, and leaves the process state as it was.
\<close>

theorem index_view_answers_200:
  assumes "req_method r = GET" and "path r = ''/''"
    and "routes s = flask_routes \<or> routes s = fastapi_routes"
  shows "serve s r = (Some \<lparr>status = 200, body = [(''message'', ''Welcome to the API'')]\<rparr>, s)"
  using assms by (auto simp: serve_flask serve_fastapi)

text \<open>
  The FastAPI block started from an empty environment with no port taken, then asked
  for \<^verbatim>\<open>/\<close>.
\<close>

theorem index_view_answers_200_witness:
  "fastapi_block uvicorn_run (start_state (runtime_of UTF8) Map.empty []) =
     Inr \<lparr>world = \<lparr>environ = Map.empty, stdout = [], ports_in_use = [],
                    listeners = [(''0.0.0.0'', 8000)], runtime = runtime_of UTF8\<rparr>,
          routes = fastapi_routes\<rparr>
   \<and> serve \<lparr>world = \<lparr>environ = Map.empty, stdout = [], ports_in_use = [],
                    listeners = [(''0.0.0.0'', 8000)], runtime = runtime_of UTF8\<rparr>,
            routes = fastapi_routes\<rparr>
        \<lparr>req_method = GET, path = ''/'', query = [], headers = []\<rparr> =
     (Some \<lparr>status = 200, body = [(''message'', ''Welcome to the API'')]\<rparr>,
      \<lparr>world = \<lparr>environ = Map.empty, stdout = [], ports_in_use = [],
                    listeners = [(''0.0.0.0'', 8000)], runtime = runtime_of UTF8\<rparr>,
            routes = fastapi_routes\<rparr>)"
  using index_view_answers_200
    [of "\<lparr>req_method = GET, path = ''/'', query = [], headers = []\<rparr>"
        "\<lparr>world = \<lparr>environ = Map.empty, stdout = [], ports_in_use = [],
                    listeners = [(''0.0.0.0'', 8000)], runtime = runtime_of UTF8\<rparr>,
            routes = fastapi_routes\<rparr>"]
  by (simp add: fastapi_block_def fastapi_main_def os_getenv_def uvicorn_run_def
      listen_def start_state_def)

section \<open>Startup and its failures\<close>




section \<open>The entry point\<close>









text \<open>
  C7: the debug flag of the commented Flask block is true exactly when
  \<^verbatim>\<open>DEBUG\<close> is set and its lower-cased value is \<^verbatim>\<open>true\<close>, that is, when it is
  one of the sixteen spellings of \<^verbatim>\<open>true\<close> in upper and lower case; it is false
  when \<^verbatim>\<open>DEBUG\<close> is unset, and computing it never fails.
\<close>

theorem debug_flag_is_case_insensitive_true:
  "flask_debug e = Inr (case e ''DEBUG'' of None \<Rightarrow> False | Some v \<Rightarrow> lower v = ''true'')
   \<and> (lower v = ''true'' \<longleftrightarrow>
        (\<exists>a b c d. v = [a, b, c, d] \<and> a \<in> {CHR ''t'', CHR ''T''} \<and> b \<in> {CHR ''r'', CHR ''R''}
           \<and> c \<in> {CHR ''u'', CHR ''U''} \<and> d \<in> {CHR ''e'', CHR ''E''}))"
  using flask_debug_eq [of e] lower_true_iff [of v] by (rule conjI)

section \<open>Determinism\<close>

text \<open>
  C8: with the route table of either commented block (or the empty table of the shipped
  program), issuing a request \<open>n\<close> times yields \<open>n\<close> identical answers and leaves the
  state as it was; and the answer depends on nothing but the method and the path of the
  request: not on its headers or query, not on the process state.
\<close>

theorem views_idempotent:
  assumes "routes s = [] \<or> routes s = flask_routes \<or> routes s = fastapi_routes"
  shows "serve_n s r n = (replicate n (fst (serve s r)), s)
     \<and> (routes s' = routes s \<and> req_method r' = req_method r \<and> path r' = path r \<longrightarrow>
          fst (serve s' r') = fst (serve s r))"
proof -
  have "serve_n s r n = (replicate n (fst (serve s r)), s)"
    by (rule serve_n_fixed) (rule serve_keeps_state [OF assms])
  moreover have "routes s' = routes s \<and> req_method r' = req_method r \<and> path r' = path r \<longrightarrow>
          fst (serve s' r') = fst (serve s r)"
    using assms by (auto simp: serve_empty serve_flask serve_fastapi)
  ultimately show ?thesis by blast
qed

text \<open>
  Three requests for \<^verbatim>\<open>/health\<close>, and the same request against another
  environment, with another query.
\<close>

theorem views_idempotent_witness:
  "serve_n ((start_state (runtime_of UTF8) Map.empty [])\<lparr>routes := flask_routes\<rparr>)
      \<lparr>req_method = GET, path = ''/health'', query = [], headers = []\<rparr> 3 =
     (replicate 3 (Some \<lparr>status = 200, body = [(''status'', ''healthy''), (''version'', ''1.0.0'')]\<rparr>),
      (start_state (runtime_of UTF8) Map.empty [])\<lparr>routes := flask_routes\<rparr>)
   \<and> fst (serve ((start_state (runtime_of ASCII) [''DEBUG'' \<mapsto> ''true''] [80])\<lparr>routes := flask_routes\<rparr>)
        \<lparr>req_method = GET, path = ''/health'', query = [(''a'', ''b'')], headers = []\<rparr>) =
     Some \<lparr>status = 200, body = [(''status'', ''healthy''), (''version'', ''1.0.0'')]\<rparr>"
  using views_idempotent
    [of "(start_state (runtime_of UTF8) Map.empty [])\<lparr>routes := flask_routes\<rparr>"
        "\<lparr>req_method = GET, path = ''/health'', query = [], headers = []\<rparr>" 3
        "(start_state (runtime_of ASCII) [''DEBUG'' \<mapsto> ''true''] [80])\<lparr>routes := flask_routes\<rparr>"
        "\<lparr>req_method = GET, path = ''/health'', query = [(''a'', ''b'')], headers = []\<rparr>"]
  by (simp add: serve_flask)




section \<open>The test suite\<close>

text \<open>
  C10: the fixture \<^verbatim>\<open>sample_data\<close> is the fixed dictionary with the one key
  \<^verbatim>\<open>user\<close>, and the three tests of \<^verbatim>\<open>TestExample\<close> pass: no assertion
  fails and no lookup raises.
\<close>

theorem test_suite_passes:
  "sample_data = [(''user'', [(''username'', ''testuser''), (''email'', ''test@example.com'')])]
   \<and> test_example_pass = Inr ()
   \<and> test_addition = Inr ()
   \<and> test_with_fixture sample_data = Inr ()"
  by (simp add: sample_data_def test_example_pass_def test_addition_def test_with_fixture_def
      py_assert_def dict_contains_def dict_getitem_def)

end
